theory Spec2Isabelle
  imports Main
begin

section \<open>Python values used by the boot loader code\<close>

text \<open>
  The development embeds \<^verbatim>\<open>pyanaconda/bootloader/grub2.py\<close>: the classes
  \<^verbatim>\<open>GRUB2\<close> and \<^verbatim>\<open>IPSeriesGRUB2\<close>. Python strings are \<open>string\<close>, restricted to
  ASCII. An attribute that holds either \<^verbatim>\<open>None\<close> or a string is a \<open>string option\<close>;
  \<open>truthy\<close> is Python's truth value of such an attribute.
\<close>

definition truthy :: "string option \<Rightarrow> bool" where
  "truthy v = (case v of None \<Rightarrow> False | Some t \<Rightarrow> t \<noteq> [])"

text \<open>\<^verbatim>\<open>str.isspace\<close> on an ASCII character: tab, LF, VT, FF, CR, FS, GS, RS, US, space.\<close>

definition isspace :: "char \<Rightarrow> bool" where
  "isspace c = (of_char c \<in> {9, 10, 11, 12, 13, 28, 29, 30, 31, 32 :: nat})"

text \<open>\<^verbatim>\<open>s.strip()\<close>\<close>

definition strip :: "string \<Rightarrow> string" where
  "strip t = rev (dropWhile isspace (rev (dropWhile isspace t)))"

text \<open>\<^verbatim>\<open>s.split()\<close>: the maximal runs of non-whitespace characters, in order.\<close>

fun split_from :: "string \<Rightarrow> string \<Rightarrow> string list" where
  "split_from cur [] = (if cur = [] then [] else [cur])"
| "split_from cur (c # cs) =
     (if isspace c then (if cur = [] then split_from [] cs else cur # split_from [] cs)
      else split_from (cur @ [c]) cs)"

definition split :: "string \<Rightarrow> string list" where
  "split t = split_from [] t"

text \<open>\<^verbatim>\<open>sep.join(xs)\<close>\<close>

fun join :: "string \<Rightarrow> string list \<Rightarrow> string" where
  "join sep [] = []"
| "join sep [x] = x"
| "join sep (x # y # ys) = x @ sep @ join sep (y # ys)"

text \<open>\<^verbatim>\<open>s.startswith(p)\<close>\<close>

definition startswith :: "string \<Rightarrow> string \<Rightarrow> bool" where
  "startswith t p = (take (length p) t = p)"

text \<open>\<^verbatim>\<open>"%d" % n\<close> for a Python integer.\<close>

definition digit_char :: "nat \<Rightarrow> char" where
  "digit_char d = char_of (48 + d)"

function show_nat :: "nat \<Rightarrow> string" where
  "show_nat n = (if n < 10 then [digit_char n] else show_nat (n div 10) @ [digit_char (n mod 10)])"
  by pat_completeness auto
termination
  by (relation "measure id") auto

definition show_int :: "int \<Rightarrow> string" where
  "show_int i = (if i < 0 then CHR ''-'' # show_nat (nat (- i)) else show_nat (nat i))"

text \<open>The exceptions the code raises, explicitly or through a failed list or file operation.\<close>

datatype error =
    BootLoaderError string
  | RuntimeError string
  | IndexError
  | ValueError
  | OSError

section \<open>Devices\<close>

text \<open>
  What the code reads of a parted partition \<^verbatim>\<open>p\<close>: \<^verbatim>\<open>p.getFlag(PARTITION_BIOS_GRUB)\<close>,
  \<^verbatim>\<open>p.geometry.start\<close> and \<^verbatim>\<open>p.disk.device.sectorSize\<close>.
\<close>

record ppart =
  bios_grub :: bool
  geometry_start :: int
  sectorSize :: int

text \<open>
  What the code reads of a storage device: \<^verbatim>\<open>name\<close>, \<^verbatim>\<open>path\<close>, \<^verbatim>\<open>is_disk\<close>, \<^verbatim>\<open>type\<close>,
  \<^verbatim>\<open>format.type\<close>, \<^verbatim>\<open>format.label_type\<close>, \<^verbatim>\<open>format.parted_disk.partitions\<close>,
  \<^verbatim>\<open>parted_partition.number\<close>, \<^verbatim>\<open>disk\<close> (\<open>None\<close> when \<^verbatim>\<open>hasattr(device, "disk")\<close> is
  false) and \<^verbatim>\<open>disks\<close>. Two devices are equal when all their attributes are.
\<close>

datatype device = Device
  (name: string)
  (path: string)
  (is_disk: bool)
  (dev_type: string)
  (format_type: string)
  (label_type: string)
  (partitions: "ppart list")
  (partition_number: int)
  (disk: "device option")
  (disks: "device list")

section \<open>The boot loader object and the system it acts on\<close>

datatype platform = Generic | IPSeries

text \<open>A boot menu image; the code compares images and reads \<^verbatim>\<open>label\<close>.\<close>

datatype image = Image (label: string)

text \<open>
  The effects on the world outside the object, in the order they happen:
  \<^verbatim>\<open>os.rename(src, dst)\<close>; \<^verbatim>\<open>open(path, mode)\<close>; \<^verbatim>\<open>util.open_with_perm(path, mode, perm)\<close>;
  one \<^verbatim>\<open>write\<close> call on an open file (path and text); a process run by
  \<^verbatim>\<open>execWithRedirect\<close>, \<^verbatim>\<open>execInSysroot\<close> or \<^verbatim>\<open>execWithCapture\<close> (root, program,
  arguments, standard input); \<^verbatim>\<open>os.sync()\<close>; and \<^verbatim>\<open>stage2_device.format.sync(root=...)\<close>.
\<close>

datatype event =
    Rename string string
  | Open string string
  | OpenWithPerm string string nat
  | WriteText string string
  | Exec string string "string list" string
  | OsSync
  | FormatSync string

text \<open>
  The object's attributes (\<^verbatim>\<open>self\<close>), together with the trace of the effects made so
  far. The attributes that \<^verbatim>\<open>GRUB2\<close> inherits from classes outside this module
  (\<^verbatim>\<open>disks\<close>, here \<open>disks_list\<close>, \<^verbatim>\<open>default\<close>, here \<open>default_image\<close>, \<^verbatim>\<open>stage1_disk\<close>, \<^verbatim>\<open>install_targets\<close>, \<^verbatim>\<open>config_file\<close>,
  \<^verbatim>\<open>config_dir\<close>, \<^verbatim>\<open>device_map_file\<close>, \<^verbatim>\<open>has_serial_console\<close>,
  \<^verbatim>\<open>serial_command\<close>, \<^verbatim>\<open>timeout\<close>, ...) are fields whose values are arbitrary.
\<close>

record grub2 =
  variant :: platform
  skip_bootloader :: bool
  update_only :: bool
  keep_mbr :: bool
  keep_boot_order :: bool
  password :: "string option"
  encrypted_password :: "string option"
  boot_args :: "string list"
  console :: "string option"
  console_options :: "string option"
  has_serial_console :: bool
  serial_command :: string
  timeout :: int
  use_bls :: bool
  default_image :: "image option"
  images :: "image list"
  menu_auto_hide :: bool
  config_file :: string
  config_dir :: string
  device_map_file :: string
  disks_list :: "device list"
  stage1_device :: device
  stage2_device :: device
  stage1_disk :: "device option"
  install_targets :: "(device \<times> device) list"
  errors :: "string list"
  warnings :: "string list"
  trace :: "event list"

section \<open>\<^verbatim>\<open>GRUB2.check\<close>\<close>

text \<open>
  The message of lines 334-338, with \<^verbatim>\<open>_\<close> the identity (no translation catalogue).
\<close>

definition gap_error :: "string \<Rightarrow> string \<Rightarrow> string \<Rightarrow> string" where
  "gap_error deviceName fsType deviceType =
     deviceName @ '' may not have enough space for grub2 to embed core.img when using the ''
       @ fsType @ '' file system on '' @ deviceType"

text \<open>
  The loop of lines 327-338 over the partitions in table order, returning
  \<^verbatim>\<open>(error_msg, biosboot)\<close>; it stops at the first partition with the bios-boot flag.
\<close>

fun scan_parts :: "int \<Rightarrow> string \<Rightarrow> ppart list \<Rightarrow> string option \<Rightarrow> string option \<times> bool" where
  "scan_parts min_start msg [] error_msg = (error_msg, False)"
| "scan_parts min_start msg (p # ps) error_msg =
     (if bios_grub p then (error_msg, True)
      else let start = geometry_start p * sectorSize p
           in scan_parts min_start msg ps (if start < min_start then Some msg else error_msg))"

definition base_gap_bytes :: int where
  "base_gap_bytes = 32256"

definition advanced_gap_bytes :: int where
  "advanced_gap_bytes = 524288"

text \<open>\<^verbatim>\<open>check\<close> returns \<^verbatim>\<open>ret\<close> and leaves its diagnostics in \<^verbatim>\<open>self.errors\<close> and \<^verbatim>\<open>self.warnings\<close>.\<close>

definition check :: "grub2 \<Rightarrow> bool \<times> grub2" where
  "check s =
     (let s0 = s\<lparr>errors := [], warnings := []\<rparr> in
      if stage1_device s0 = stage2_device s0 then (True, s0)
      else
        let min_start = (if dev_type (stage2_device s0) = ''partition''
                         then base_gap_bytes else advanced_gap_bytes) in
        case stage1_disk s0 of
          None \<Rightarrow> (False, s0)
        | Some d \<Rightarrow>
            let msg = gap_error (name (stage1_device s0)) (format_type (stage2_device s0))
                        (dev_type (stage2_device s0));
                (error_msg, biosboot) = scan_parts min_start msg (partitions d) None
            in if truthy error_msg \<and> \<not> biosboot
               then (False, s0\<lparr>errors := errors s0 @ [the error_msg]\<rparr>)
               else (True, s0))"

section \<open>The environment\<close>

text \<open>
  What the code asks of the world outside the object. Each answer may depend on the
  effects made so far: \<^verbatim>\<open>util.getSysroot()\<close>, \<^verbatim>\<open>util.getTargetPhysicalRoot()\<close>,
  \<^verbatim>\<open>conf.target.is_hardware\<close>, \<^verbatim>\<open>os.path.normpath\<close>, \<^verbatim>\<open>os.access(path, os.R_OK)\<close>,
  \<^verbatim>\<open>os.path.exists\<close>, whether opening a file raises \<^verbatim>\<open>OSError\<close>, the exit code and the
  captured output of a process, and the inherited method \<^verbatim>\<open>update\<close>.

  Calls of the logger change neither the object nor the files and are left out, as are the
  \<^verbatim>\<open>env_prune\<close> argument of \<^verbatim>\<open>execWithRedirect\<close> and the closing of files. Of the calls
  into the operating system only the opening of a file can fail here.
\<close>

record env =
  sysroot :: string
  target_physical_root :: string
  is_hardware :: bool
  normpath :: "string \<Rightarrow> string"
  readable :: "event list \<Rightarrow> string \<Rightarrow> bool"
  path_exists :: "event list \<Rightarrow> string \<Rightarrow> bool"
  open_fails :: "event list \<Rightarrow> string \<Rightarrow> bool"
  exec_rc :: "event list \<Rightarrow> event \<Rightarrow> int"
  exec_out :: "event list \<Rightarrow> event \<Rightarrow> string"
  update :: "grub2 \<Rightarrow> error option \<times> grub2"

definition emit :: "event \<Rightarrow> grub2 \<Rightarrow> grub2" where
  "emit e s = s\<lparr>trace := trace s @ [e]\<rparr>"

definition open_file :: "env \<Rightarrow> string \<Rightarrow> string \<Rightarrow> grub2 \<Rightarrow> error option \<times> grub2" where
  "open_file env p mode s =
     (if open_fails env (trace s) p then (Some OSError, s) else (None, emit (Open p mode) s))"

definition open_with_perm :: "env \<Rightarrow> string \<Rightarrow> string \<Rightarrow> nat \<Rightarrow> grub2 \<Rightarrow> error option \<times> grub2" where
  "open_with_perm env p mode perm s =
     (if open_fails env (trace s) p then (Some OSError, s)
      else (None, emit (OpenWithPerm p mode perm) s))"

definition write_text :: "string \<Rightarrow> string \<Rightarrow> grub2 \<Rightarrow> grub2" where
  "write_text p t s = emit (WriteText p t) s"

text \<open>\<^verbatim>\<open>util.execWithRedirect(cmd, args, root=root)\<close>: the exit code.\<close>

definition execWithRedirect :: "env \<Rightarrow> string \<Rightarrow> string \<Rightarrow> string list \<Rightarrow> grub2 \<Rightarrow> int \<times> grub2" where
  "execWithRedirect env root cmd args s =
     (exec_rc env (trace s) (Exec root cmd args []), emit (Exec root cmd args []) s)"

text \<open>\<^verbatim>\<open>util.execInSysroot(cmd, args)\<close>\<close>

definition execInSysroot :: "env \<Rightarrow> string \<Rightarrow> string list \<Rightarrow> grub2 \<Rightarrow> int \<times> grub2" where
  "execInSysroot env cmd args s = execWithRedirect env (sysroot env) cmd args s"

text \<open>\<^verbatim>\<open>util.execWithCapture(cmd, args, stdin=..., root=root)\<close>: the captured output.\<close>

definition execWithCapture ::
  "env \<Rightarrow> string \<Rightarrow> string \<Rightarrow> string list \<Rightarrow> string \<Rightarrow> grub2 \<Rightarrow> string \<times> grub2" where
  "execWithCapture env root cmd args stdin s =
     (exec_out env (trace s) (Exec root cmd args stdin), emit (Exec root cmd args stdin) s)"

definition os_sync :: "grub2 \<Rightarrow> grub2" where
  "os_sync s = emit OsSync s"

definition format_sync :: "env \<Rightarrow> grub2 \<Rightarrow> grub2" where
  "format_sync env s = emit (FormatSync (target_physical_root env)) s"

definition dq :: string where
  "dq = [CHR 0x22]"

definition nl :: string where
  "nl = [CHR 0x0A]"

section \<open>\<^verbatim>\<open>GRUB2.grub_device_name\<close> and \<^verbatim>\<open>GRUB2.write_device_map\<close>\<close>

text \<open>\<^verbatim>\<open>xs.index(x)\<close>; \<open>None\<close> where Python raises \<^verbatim>\<open>ValueError\<close>.\<close>

fun index_of :: "'a list \<Rightarrow> 'a \<Rightarrow> nat option" where
  "index_of [] x = None"
| "index_of (y # ys) x = (if y = x then Some 0 else map_option Suc (index_of ys x))"

definition grub_device_name :: "grub2 \<Rightarrow> device \<Rightarrow> error + string" where
  "grub_device_name s device =
     (let d = (if is_disk device then Some device else disk device) in
      case d of
        None \<Rightarrow> Inr (''('' @ name device @ '')'')
      | Some dk \<Rightarrow>
          (case index_of (disks_list s) dk of
             None \<Rightarrow> Inl ValueError
           | Some i \<Rightarrow>
               let nm = ''(hd'' @ show_nat i;
                   nm = (case disk device of
                           None \<Rightarrow> nm
                         | Some dd \<Rightarrow> nm @ '','' @ label_type dd @ show_int (partition_number device))
               in Inr (nm @ '')'')))"

text \<open>The loop of lines 138-140: one line per drive, stopping where naming a drive raises.\<close>

fun write_map_lines :: "string \<Rightarrow> device list \<Rightarrow> grub2 \<Rightarrow> error option \<times> grub2" where
  "write_map_lines p [] s = (None, s)"
| "write_map_lines p (drive # ds) s =
     (case grub_device_name s drive of
        Inl e \<Rightarrow> (Some e, s)
      | Inr n \<Rightarrow> write_map_lines p ds (write_text p (n @ ''      '' @ path drive @ nl) s))"

text \<open>
  The devices collected by lines 123-129. \<^verbatim>\<open>devices = self.disks\<close> binds the list the
  object holds, so the appended devices are in \<^verbatim>\<open>self.disks\<close> afterwards.
\<close>

definition collect_devices :: "grub2 \<Rightarrow> device list" where
  "collect_devices s =
     (let devices = disks_list s;
          devices = (if stage1_device s \<notin> set devices then devices @ [stage1_device s] else devices)
      in fold (\<lambda>disk ds. if disk \<notin> set ds then ds @ [disk] else ds)
           (disks (stage2_device s)) devices)"

definition write_device_map :: "env \<Rightarrow> grub2 \<Rightarrow> error option \<times> grub2" where
  "write_device_map env s =
     (let map_path = normpath env (sysroot env @ device_map_file s);
          s1 = (if readable env (trace s) map_path
                then emit (Rename map_path (map_path @ ''.anacbak'')) s else s);
          s2 = s1\<lparr>disks_list := collect_devices s1\<rparr>;
          devices = filter is_disk (disks_list s2)
      in if length devices = 0 then (None, s2)
         else case open_file env map_path ''w'' s2 of
                (Some e, s3) \<Rightarrow> (Some e, s3)
              | (None, s3) \<Rightarrow>
                  write_map_lines map_path devices
                    (write_text map_path (''# this device map was generated by anaconda'' @ nl) s3))"

text \<open>
  The effect of lines 119-121 alone: the rename of a readable map file to the backup name.
\<close>

definition map_renames :: "env \<Rightarrow> grub2 \<Rightarrow> event list" where
  "map_renames env s =
     (let map_path = normpath env (sysroot env @ device_map_file s)
      in if readable env (trace s) map_path then [Rename map_path (map_path @ ''.anacbak'')] else [])"

section \<open>Boot arguments\<close>

text \<open>
  Modelled from the spec: the class of \<^verbatim>\<open>self.boot_args\<close> is defined outside this module.
  The spec calls it the shared kernel boot-argument set, to which tokens are appended and
  which is written out as the kernel command line: a list without repetition, in order of
  insertion, printed with single spaces between the tokens.
\<close>

definition args_add :: "string \<Rightarrow> string list \<Rightarrow> string list" where
  "args_add a xs = (if a \<in> set xs then xs else xs @ [a])"

definition args_str :: "string list \<Rightarrow> string" where
  "args_str xs = join '' '' xs"

section \<open>\<^verbatim>\<open>write_config_console\<close> and \<^verbatim>\<open>write_defaults\<close>\<close>

definition write_config_console :: "grub2 \<Rightarrow> grub2" where
  "write_config_console s =
     (if \<not> truthy (console s) then s
      else
        let console_arg = ''console='' @ the (console s);
            console_arg = (if truthy (console_options s)
                           then console_arg @ '','' @ the (console_options s) else console_arg)
        in s\<lparr>boot_args := args_add console_arg (boot_args s)\<rparr>)"

definition defaults_file :: string where
  "defaults_file = ''/etc/default/grub''"

text \<open>The class attribute \<^verbatim>\<open>terminal_type\<close>.\<close>

definition terminal_type :: "platform \<Rightarrow> string" where
  "terminal_type v = (case v of Generic \<Rightarrow> ''console'' | IPSeries \<Rightarrow> ''ofconsole'')"

definition cmdline_line :: "string list \<Rightarrow> string" where
  "cmdline_line args = ''GRUB_CMDLINE_LINUX='' @ dq @ args_str args @ dq @ nl"

text \<open>The texts of the \<^verbatim>\<open>defaults.write\<close> calls of lines 146-161, in order.\<close>

definition defaults_lines :: "grub2 \<Rightarrow> string list" where
  "defaults_lines s =
     [''GRUB_TIMEOUT='' @ show_int (timeout s) @ nl,
      ''GRUB_DISTRIBUTOR='' @ dq @ ''$(sed 's, release .*$,,g' /etc/system-release)'' @ dq @ nl,
      ''GRUB_DEFAULT=saved'' @ nl,
      ''GRUB_DISABLE_SUBMENU=true'' @ nl]
     @ (if truthy (console s) \<and> has_serial_console s
        then [''GRUB_TERMINAL='' @ dq @ ''serial console'' @ dq @ nl,
              ''GRUB_SERIAL_COMMAND='' @ dq @ serial_command s @ dq @ nl]
        else [''GRUB_TERMINAL_OUTPUT='' @ dq @ terminal_type (variant s) @ dq @ nl])
     @ [cmdline_line (boot_args s),
        ''GRUB_DISABLE_RECOVERY='' @ dq @ ''true'' @ dq @ nl]"

definition GRUB2_write_defaults :: "env \<Rightarrow> grub2 \<Rightarrow> error option \<times> grub2" where
  "GRUB2_write_defaults env s =
     (let f = sysroot env @ defaults_file in
      case open_file env f ''w+'' s of
        (Some e, s1) \<Rightarrow> (Some e, s1)
      | (None, s1) \<Rightarrow>
          let s2 = fold (write_text f) (defaults_lines s1) s1;
              s3 = (if use_bls s2 \<and> path_exists env (trace s2) (sysroot env @ ''/usr/sbin/new-kernel-pkg'')
                    then s2\<lparr>use_bls := False\<rparr> else s2);
              s4 = (if use_bls s3 then write_text f (''GRUB_ENABLE_BLSCFG=true'' @ nl) s3 else s3)
          in (None, s4))"

definition IPSeriesGRUB2_write_defaults :: "env \<Rightarrow> grub2 \<Rightarrow> error option \<times> grub2" where
  "IPSeriesGRUB2_write_defaults env s =
     (case GRUB2_write_defaults env s of
        (Some e, s1) \<Rightarrow> (Some e, s1)
      | (None, s1) \<Rightarrow>
          let f = sysroot env @ defaults_file in
          (case open_file env f ''a+'' s1 of
             (Some e, s2) \<Rightarrow> (Some e, s2)
           | (None, s2) \<Rightarrow>
               (None,
                write_text f (''GRUB_DISABLE_OS_PROBER=true'' @ nl)
                  (write_text f
                     (''GRUB_TERMINFO='' @ dq @ ''terminfo -g 80x24 console'' @ dq @ nl) s2))))"

text \<open>\<^verbatim>\<open>self.write_defaults()\<close>: the method of the object's class.\<close>

definition write_defaults :: "env \<Rightarrow> grub2 \<Rightarrow> error option \<times> grub2" where
  "write_defaults env s =
     (case variant s of
        Generic \<Rightarrow> GRUB2_write_defaults env s
      | IPSeries \<Rightarrow> IPSeriesGRUB2_write_defaults env s)"

section \<open>The password\<close>

text \<open>
  \<^verbatim>\<open>GRUB2._encrypt_password\<close>. The pipe that carries the password twice is the standard
  input of the process. \<^verbatim>\<open>buf.split()[-1]\<close> raises \<^verbatim>\<open>IndexError\<close> on an empty list; the
  attribute is assigned before the prefix is tested.
\<close>

definition encrypt_password :: "env \<Rightarrow> grub2 \<Rightarrow> error option \<times> grub2" where
  "encrypt_password env s =
     (if truthy (encrypted_password s) then (None, s)
      else if \<not> truthy (password s) then (Some (RuntimeError ''cannot encrypt empty password''), s)
      else
        let passwords = the (password s) @ nl @ the (password s) @ nl;
            (buf, s1) = execWithCapture env (sysroot env) ''grub2-mkpasswd-pbkdf2'' [] passwords s
        in case split buf of
             [] \<Rightarrow> (Some IndexError, s1)
           | t # ts \<Rightarrow>
               let s2 = s1\<lparr>encrypted_password := Some (strip (last (t # ts)))\<rparr>
               in if \<not> startswith (the (encrypted_password s2)) ''grub.pbkdf2.''
                  then (Some (BootLoaderError ''failed to encrypt boot loader password''), s2)
                  else (None, s2))"

text \<open>The class attribute \<^verbatim>\<open>_passwd_file\<close>; the permission \<^verbatim>\<open>0o700\<close> is 448.\<close>

definition passwd_file :: string where
  "passwd_file = ''user.cfg''"

definition write_password_config :: "env \<Rightarrow> grub2 \<Rightarrow> error option \<times> grub2" where
  "write_password_config env s =
     (if \<not> truthy (password s) \<and> \<not> truthy (encrypted_password s) then (None, s)
      else
        let users_file = sysroot env @ config_dir s @ ''/'' @ passwd_file in
        (case open_with_perm env users_file ''w'' 448 s of
           (Some e, s1) \<Rightarrow> (Some e, s1)
         | (None, s1) \<Rightarrow>
             (case encrypt_password env s1 of
                (Some e, s2) \<Rightarrow> (Some e, s2)
              | (None, s2) \<Rightarrow>
                  let password_line = ''GRUB2_PASSWORD='' @ the (encrypted_password s2)
                  in (None, write_text users_file (password_line @ nl) s2))))"

section \<open>\<^verbatim>\<open>GRUB2.write_config\<close>\<close>

text \<open>The exceptions caught by \<^verbatim>\<open>except (BootLoaderError, OSError, RuntimeError)\<close>.\<close>

fun caught :: "error \<Rightarrow> bool" where
  "caught (BootLoaderError m) = True"
| "caught OSError = True"
| "caught (RuntimeError m) = True"
| "caught e = False"

text \<open>Lines 220-247: the default entry, the hidden menu and \<^verbatim>\<open>grub2-mkconfig\<close>.\<close>

definition finish_config :: "env \<Rightarrow> grub2 \<Rightarrow> error option \<times> grub2" where
  "finish_config env s =
     (let s1 = (case default_image s of
                  None \<Rightarrow> s
                | Some d \<Rightarrow>
                    let default_index = (case index_of (images s) d of None \<Rightarrow> 0 | Some i \<Rightarrow> i)
                    in snd (execInSysroot env ''grub2-set-default'' [show_nat default_index] s));
          s2 = (if menu_auto_hide s1
                then snd (execInSysroot env ''grub2-editenv''
                            [''-'', ''set'', ''menu_auto_hide=1'', ''boot_success=1''] s1)
                else s1);
          (rc, s3) = execInSysroot env ''grub2-mkconfig'' [''-o'', config_file s2] s2
      in if rc \<noteq> 0
         then (Some (BootLoaderError ''failed to write boot loader configuration''), s3)
         else (None, s3))"

text \<open>Lines 205-209: the console argument and, with a password, \<^verbatim>\<open>rd.shell=0\<close>.\<close>

definition prepare_boot_args :: "grub2 \<Rightarrow> grub2" where
  "prepare_boot_args s =
     (let s1 = write_config_console s
      in if truthy (password s1) \<or> truthy (encrypted_password s1)
         then s1\<lparr>boot_args := args_add ''rd.shell=0'' (boot_args s1)\<rparr> else s1)"

definition write_config :: "env \<Rightarrow> grub2 \<Rightarrow> error option \<times> grub2" where
  "write_config env s =
     (case write_defaults env (prepare_boot_args s) of
        (Some e, s1) \<Rightarrow> (Some e, s1)
      | (None, s1) \<Rightarrow>
          (case write_password_config env s1 of
             (Some e, s2) \<Rightarrow> (if caught e then finish_config env s2 else (Some e, s2))
           | (None, s2) \<Rightarrow> finish_config env s2))"

section \<open>Installation\<close>

text \<open>
  The argument list that lines 259-266 of \<^verbatim>\<open>GRUB2.install\<close> build for one target from
  \<^verbatim>\<open>args\<close>.
\<close>

definition target_args :: "bool \<Rightarrow> string list \<Rightarrow> device \<times> device \<Rightarrow> string list" where
  "target_args keep args target =
     (case target of
        (stage1dev, stage2dev) \<Rightarrow>
          let grub_args = args @ [''--no-floppy'', path stage1dev]
          in if stage1dev = stage2dev then ''--force'' # grub_args
             else if keep then ''--grub-setup=/bin/true'' # grub_args
             else grub_args)"

text \<open>
  The loop of \<^verbatim>\<open>GRUB2.install\<close> over \<^verbatim>\<open>self.install_targets\<close>: it raises at the first
  target for which \<^verbatim>\<open>grub2-install\<close> exits with a non-zero code.
\<close>

fun install_loop :: "env \<Rightarrow> string list \<Rightarrow> (device \<times> device) list \<Rightarrow> grub2 \<Rightarrow> error option \<times> grub2" where
  "install_loop env args [] s = (None, s)"
| "install_loop env args (target # targets) s =
     (let (rc, s1) = execWithRedirect env (sysroot env) ''grub2-install''
                       (target_args (keep_mbr s) args target) s
      in if rc \<noteq> 0 then (Some (BootLoaderError ''boot loader install failed''), s1)
         else install_loop env args targets s1)"

definition GRUB2_install :: "env \<Rightarrow> string list option \<Rightarrow> grub2 \<Rightarrow> error option \<times> grub2" where
  "GRUB2_install env args s =
     (let args = (case args of None \<Rightarrow> [] | Some a \<Rightarrow> a)
      in install_loop env args (install_targets s) s)"

text \<open>
  Line 384, \<^verbatim>\<open>buf.strip().replace("\"", "").split()\<close>, and line 398: the boot disk first,
  every other occurrence of it removed.
\<close>

definition parse_boot_list :: "string \<Rightarrow> string list" where
  "parse_boot_list buf = split (filter (\<lambda>c. c \<noteq> CHR 0x22) (strip buf))"

definition reorder_boot_list :: "string \<Rightarrow> string list \<Rightarrow> string list" where
  "reorder_boot_list boot_disk boot_list = boot_disk # filter (\<lambda>x. x \<noteq> boot_disk) boot_list"

definition updateNVRAMBootList :: "env \<Rightarrow> grub2 \<Rightarrow> grub2" where
  "updateNVRAMBootList env s =
     (if \<not> is_hardware env then s
      else
        let (buf, s1) = execWithCapture env ''/'' ''nvram'' [''--print-config=boot-device''] [] s in
        if length buf = 0 then s1
        else
          let boot_list = parse_boot_list buf;
              (buf, s2) = execWithCapture env ''/'' ''ofpathname'' [path (stage1_device s1)] [] s1
          in if length buf > 0
             then
               let boot_disk = strip buf;
                   boot_list = reorder_boot_list boot_disk boot_list;
                   update_value = ''boot-device='' @ join '' '' boot_list
               in snd (execWithRedirect env ''/'' ''nvram'' [''--update-config'', update_value] s2)
             else s2)"

definition IPSeriesGRUB2_install :: "env \<Rightarrow> string list option \<Rightarrow> grub2 \<Rightarrow> error option \<times> grub2" where
  "IPSeriesGRUB2_install env args s =
     (let s1 = (if keep_boot_order s then s else updateNVRAMBootList env s)
      in GRUB2_install env (Some [''--no-nvram'']) s1)"

text \<open>\<^verbatim>\<open>self.install(args)\<close>: the method of the object's class.\<close>

definition install :: "env \<Rightarrow> string list option \<Rightarrow> grub2 \<Rightarrow> error option \<times> grub2" where
  "install env args s =
     (case variant s of
        Generic \<Rightarrow> GRUB2_install env args s
      | IPSeries \<Rightarrow> IPSeriesGRUB2_install env args s)"

section \<open>\<^verbatim>\<open>GRUB2.write\<close>\<close>

text \<open>The body of the \<^verbatim>\<open>try\<close> block, lines 287-292.\<close>

definition write_try :: "env \<Rightarrow> grub2 \<Rightarrow> error option \<times> grub2" where
  "write_try env s =
     (case write_device_map env s of
        (Some e, s1) \<Rightarrow> (Some e, s1)
      | (None, s1) \<Rightarrow>
          (case install env None (os_sync (format_sync env s1)) of
             (Some e, s2) \<Rightarrow> (Some e, s2)
           | (None, s2) \<Rightarrow> (None, format_sync env (os_sync s2))))"

text \<open>The body of the \<^verbatim>\<open>finally\<close> block, lines 294-296.\<close>

definition write_finally :: "env \<Rightarrow> grub2 \<Rightarrow> error option \<times> grub2" where
  "write_finally env s =
     (case write_config env s of
        (Some e, s1) \<Rightarrow> (Some e, s1)
      | (None, s1) \<Rightarrow> (None, format_sync env (os_sync s1)))"

text \<open>
  \<^verbatim>\<open>write\<close>: the \<^verbatim>\<open>finally\<close> block runs after the \<^verbatim>\<open>try\<close> block however that ended; an
  exception raised in the \<^verbatim>\<open>finally\<close> block replaces the pending one, otherwise the pending
  one is raised again.
\<close>

definition "write" :: "env \<Rightarrow> grub2 \<Rightarrow> error option \<times> grub2" where
  "write env s =
     (if skip_bootloader s then (None, s)
      else if update_only s then update env s
      else
        let (pending, s1) = write_try env s;
            (raised, s2) = write_finally env s1
        in (case raised of Some e \<Rightarrow> (Some e, s2) | None \<Rightarrow> (pending, s2)))"

section \<open>Example inputs\<close>

text \<open>
  A disk \<^verbatim>\<open>sda\<close> with a PReP partition \<^verbatim>\<open>sda1\<close> that starts at sector 58 (byte 29696)
  and a boot partition \<^verbatim>\<open>sda2\<close>; a second disk \<^verbatim>\<open>sdb\<close> with a bios-boot partition
  behind a partition that starts at sector 1.
\<close>

definition example_disk :: device where
  "example_disk =
     Device ''sda'' ''/dev/sda'' True ''disk'' ''disklabel'' ''msdos''
       [\<lparr>bios_grub = False, geometry_start = 58, sectorSize = 512\<rparr>,
        \<lparr>bios_grub = False, geometry_start = 2048, sectorSize = 512\<rparr>]
       0 None []"

definition example_prep :: device where
  "example_prep =
     Device ''sda1'' ''/dev/sda1'' False ''partition'' ''prepboot'' [] [] 1
       (Some example_disk) [example_disk]"

definition example_boot :: device where
  "example_boot =
     Device ''sda2'' ''/dev/sda2'' False ''partition'' ''ext4'' [] [] 2
       (Some example_disk) [example_disk]"

definition example_gpt_disk :: device where
  "example_gpt_disk =
     Device ''sdb'' ''/dev/sdb'' True ''disk'' ''disklabel'' ''gpt''
       [\<lparr>bios_grub = False, geometry_start = 1, sectorSize = 512\<rparr>,
        \<lparr>bios_grub = True, geometry_start = 34, sectorSize = 512\<rparr>]
       0 None []"

text \<open>A generic boot loader installing to the boot record of \<^verbatim>\<open>sda\<close>, with a password.\<close>

definition example_state :: grub2 where
  "example_state =
     \<lparr>variant = Generic, skip_bootloader = False, update_only = False, keep_mbr = False,
      keep_boot_order = False, password = Some ''secret'', encrypted_password = None,
      boot_args = [''ro''], console = None, console_options = None,
      has_serial_console = False, serial_command = [], timeout = 5, use_bls = True,
      default_image = None, images = [], menu_auto_hide = False,
      config_file = ''/boot/grub2/grub.cfg'', config_dir = ''/boot/grub2'',
      device_map_file = ''/boot/grub2/device.map'', disks_list = [example_disk],
      stage1_device = example_disk, stage2_device = example_boot,
      stage1_disk = Some example_disk, install_targets = [(example_disk, example_boot)],
      errors = [], warnings = [], trace = []\<rparr>"

text \<open>The same on the firmware-table platform, installing to the PReP partition.\<close>

definition example_ipseries :: grub2 where
  "example_ipseries =
     example_state\<lparr>variant := IPSeries, stage1_device := example_prep,
       install_targets := [(example_prep, example_boot)]\<rparr>"

text \<open>
  An environment in which every process exits with the given code, the firmware boot list
  is \<^verbatim>\<open>b c\<close>, the firmware path of the stage1 device is \<^verbatim>\<open>c\<close>, and the password tool
  prints the given text.
\<close>

definition example_out :: "string \<Rightarrow> event \<Rightarrow> string" where
  "example_out hash_output ev =
     (case ev of
        Exec root cmd args stdin \<Rightarrow>
          (if cmd = ''nvram'' then ''b c'' @ nl
           else if cmd = ''ofpathname'' then ''c'' @ nl
           else hash_output)
      | _ \<Rightarrow> [])"

definition example_env :: "int \<Rightarrow> string \<Rightarrow> bool \<Rightarrow> env" where
  "example_env rc hash_output map_exists =
     \<lparr>sysroot = ''/mnt/sysroot'', target_physical_root = ''/mnt/sysimage'', is_hardware = True,
      normpath = (\<lambda>p. p), readable = (\<lambda>tr p. map_exists), path_exists = (\<lambda>tr p. False),
      open_fails = (\<lambda>tr p. False), exec_rc = (\<lambda>tr ev. rc),
      exec_out = (\<lambda>tr. example_out hash_output), update = (\<lambda>s. (None, s))\<rparr>"

definition example_hash_output :: string where
  "example_hash_output = ''PBKDF2 hash of your password is grub.pbkdf2.sha512.10000.AB.CD'' @ nl"

text \<open>
  A boot loader whose device set holds no disk: the disk list is empty, the stage1 device is
  the partition \<^verbatim>\<open>sda1\<close> and the stage2 device reports no disks.
\<close>

definition example_mapped :: device where
  "example_mapped =
     Device ''boot'' ''/dev/mapper/boot'' False ''partition'' ''ext4'' [] [] 1 None []"

definition example_no_disks :: grub2 where
  "example_no_disks =
     example_state\<lparr>disks_list := [], stage1_device := example_prep,
       stage2_device := example_mapped, install_targets := [(example_prep, example_mapped)]\<rparr>"

text \<open>
  The example environment in which only \<^verbatim>\<open>grub2-install\<close> fails.
\<close>

definition example_env_install_fails :: env where
  "example_env_install_fails =
     (example_env 0 example_hash_output True)
       \<lparr>exec_rc := (\<lambda>tr ev. case ev of
                       Exec root cmd args stdin \<Rightarrow> if cmd = ''grub2-install'' then 1 else 0
                     | _ \<Rightarrow> 0)\<rparr>"

section \<open>The layout check\<close>

lemma scan_parts_flag:
  "\<exists>p\<in>set ps. bios_grub p \<Longrightarrow> snd (scan_parts m msg ps e) = True"
  by (induction ps arbitrary: e) (auto simp: Let_def)

lemma scan_parts_noflag:
  "\<forall>p\<in>set ps. \<not> bios_grub p \<Longrightarrow>
   scan_parts m msg ps e =
     (if \<exists>p\<in>set ps. geometry_start p * sectorSize p < m then Some msg else e, False)"
  by (induction ps arbitrary: e) (auto simp: Let_def)

lemma gap_error_nonempty: "gap_error a b c \<noteq> []"
  by (simp add: gap_error_def)

lemmas example_devices =
  example_disk_def example_prep_def example_boot_def example_gpt_disk_def example_mapped_def

text \<open>
  C4, as stated, fails. On the firmware-table example the stage1 device is the partition
  \<^verbatim>\<open>sda1\<close> of the stage1 disk \<^verbatim>\<open>sda\<close>, the stage2 device is a plain partition, no
  partition of \<^verbatim>\<open>sda\<close> has the bios-boot flag and the first one starts at byte 29696,
  below 32256. The check returns not-ok with one error, but the error is the message for
  the name \<^verbatim>\<open>sda1\<close> of the stage1 device, not for the name \<^verbatim>\<open>sda\<close> of the stage1 disk.
\<close>

theorem check_error_names_disk_counterexample:
  "stage1_device example_ipseries \<noteq> stage2_device example_ipseries
   \<and> dev_type (stage2_device example_ipseries) = ''partition''
   \<and> stage1_disk example_ipseries = Some example_disk
   \<and> name example_disk = ''sda''
   \<and> partitions example_disk =
       [\<lparr>bios_grub = False, geometry_start = 58, sectorSize = 512\<rparr>,
        \<lparr>bios_grub = False, geometry_start = 2048, sectorSize = 512\<rparr>]
   \<and> (58::int) * 512 < 32256
   \<and> fst (check example_ipseries) = False
   \<and> errors (snd (check example_ipseries)) = [gap_error ''sda1'' ''ext4'' ''partition'']
   \<and> errors (snd (check example_ipseries)) \<noteq> [gap_error ''sda'' ''ext4'' ''partition'']"
  by (simp add: check_def example_ipseries_def example_state_def example_devices Let_def
      base_gap_bytes_def truthy_def gap_error_def)

text \<open>
  C4, amended. For every layout with stage1 device \<open>\<noteq>\<close> stage2 device, a stage2 device of
  type partition, a stage1 disk none of whose partitions has the bios-boot flag and one of
  whose partitions starts (start sector times sector size) below byte 32256, \<open>check\<close>
  returns not-ok and leaves exactly one error and no warning; the error is the message built
  from the name of the stage1 device, the filesystem type of the stage2 device and its
  device type.
\<close>

theorem check_gap_too_small:
  assumes "stage1_device s \<noteq> stage2_device s"
    and "dev_type (stage2_device s) = ''partition''"
    and "stage1_disk s = Some d"
    and "\<forall>p\<in>set (partitions d). \<not> bios_grub p"
    and "\<exists>p\<in>set (partitions d). geometry_start p * sectorSize p < 32256"
  shows "check s =
           (False, s\<lparr>errors := [gap_error (name (stage1_device s)) (format_type (stage2_device s))
                                  ''partition''],
                     warnings := []\<rparr>)"
  using assms
  by (simp add: check_def Let_def scan_parts_noflag truthy_def gap_error_nonempty base_gap_bytes_def)

theorem check_gap_too_small_witness:
  "stage1_device example_state \<noteq> stage2_device example_state
   \<and> dev_type (stage2_device example_state) = ''partition''
   \<and> stage1_disk example_state = Some example_disk
   \<and> partitions example_disk =
       [\<lparr>bios_grub = False, geometry_start = 58, sectorSize = 512\<rparr>,
        \<lparr>bios_grub = False, geometry_start = 2048, sectorSize = 512\<rparr>]
   \<and> check example_state =
       (False, example_state\<lparr>errors := [gap_error ''sda'' ''ext4'' ''partition''], warnings := []\<rparr>)"
proof -
  have h1: "stage1_device example_state \<noteq> stage2_device example_state"
    by (simp add: example_state_def example_devices)
  have h2: "dev_type (stage2_device example_state) = ''partition''"
    by (simp add: example_state_def example_devices)
  have h3: "stage1_disk example_state = Some example_disk"
    by (simp add: example_state_def)
  have h4: "\<forall>p\<in>set (partitions example_disk). \<not> bios_grub p"
    by (simp add: example_devices)
  have h5: "\<exists>p\<in>set (partitions example_disk). geometry_start p * sectorSize p < 32256"
    by (simp add: example_devices)
  have "name (stage1_device example_state) = ''sda''"
    and "format_type (stage2_device example_state) = ''ext4''"
    by (simp_all add: example_state_def example_devices)
  moreover have "partitions example_disk =
       [\<lparr>bios_grub = False, geometry_start = 58, sectorSize = 512\<rparr>,
        \<lparr>bios_grub = False, geometry_start = 2048, sectorSize = 512\<rparr>]"
    by (simp add: example_devices)
  ultimately show ?thesis
    using check_gap_too_small [OF h1 h2 h3 h4 h5] h1 h2 h3 by simp
qed

text \<open>
  C5. For every layout with stage1 device \<open>\<noteq>\<close> stage2 device and a stage1 disk, if some
  partition of the stage1 disk has the bios-boot flag then \<open>check\<close> returns ok with no
  error and no warning, whatever the start offsets of the other partitions are and wherever
  in the table the flagged partition stands.
\<close>

theorem check_bios_boot_ok:
  assumes "stage1_device s \<noteq> stage2_device s"
    and "stage1_disk s = Some d"
    and "\<exists>p\<in>set (partitions d). bios_grub p"
  shows "check s = (True, s\<lparr>errors := [], warnings := []\<rparr>)"
proof -
  have "snd (scan_parts m msg (partitions d) None) = True" for m msg
    using assms(3) by (rule scan_parts_flag)
  then show ?thesis
    using assms(1,2) by (simp add: check_def Let_def split_beta)
qed

text \<open>
  The witness: on \<^verbatim>\<open>sdb\<close> the partition that starts at byte 512 comes before the flagged one.
\<close>

theorem check_bios_boot_ok_witness:
  "stage1_device (example_state\<lparr>stage1_disk := Some example_gpt_disk\<rparr>)
     \<noteq> stage2_device (example_state\<lparr>stage1_disk := Some example_gpt_disk\<rparr>)
   \<and> partitions example_gpt_disk =
       [\<lparr>bios_grub = False, geometry_start = 1, sectorSize = 512\<rparr>,
        \<lparr>bios_grub = True, geometry_start = 34, sectorSize = 512\<rparr>]
   \<and> check (example_state\<lparr>stage1_disk := Some example_gpt_disk\<rparr>) =
       (True, example_state\<lparr>stage1_disk := Some example_gpt_disk, errors := [], warnings := []\<rparr>)"
proof -
  let ?s = "example_state\<lparr>stage1_disk := Some example_gpt_disk\<rparr>"
  have h1: "stage1_device ?s \<noteq> stage2_device ?s"
    by (simp add: example_state_def example_devices)
  have h2: "stage1_disk ?s = Some example_gpt_disk"
    by simp
  have h3: "\<exists>p\<in>set (partitions example_gpt_disk). bios_grub p"
    by (simp add: example_devices)
  from check_bios_boot_ok [OF h1 h2 h3] h1 show ?thesis
    by (simp add: example_gpt_disk_def)
qed

text \<open>
  C9. When the stage1 disk is not determined (\<^verbatim>\<open>self.stage1_disk\<close> is \<^verbatim>\<open>None\<close>) and stage1
  device \<open>\<noteq>\<close> stage2 device, \<open>check\<close> returns not-ok and leaves both the errors and the
  warnings empty.
\<close>

theorem check_no_stage1_disk:
  assumes "stage1_device s \<noteq> stage2_device s"
    and "stage1_disk s = None"
  shows "check s = (False, s\<lparr>errors := [], warnings := []\<rparr>)"
  using assms by (simp add: check_def Let_def)

theorem check_no_stage1_disk_witness:
  "stage1_device (example_state\<lparr>stage1_disk := None, errors := [''old'']\<rparr>)
     \<noteq> stage2_device (example_state\<lparr>stage1_disk := None, errors := [''old'']\<rparr>)
   \<and> fst (check (example_state\<lparr>stage1_disk := None, errors := [''old'']\<rparr>)) = False
   \<and> errors (snd (check (example_state\<lparr>stage1_disk := None, errors := [''old'']\<rparr>))) = []
   \<and> warnings (snd (check (example_state\<lparr>stage1_disk := None, errors := [''old'']\<rparr>))) = []"
proof -
  let ?s = "example_state\<lparr>stage1_disk := None, errors := [''old'']\<rparr>"
  have h1: "stage1_device ?s \<noteq> stage2_device ?s"
    by (simp add: example_state_def example_devices)
  have h2: "stage1_disk ?s = None"
    by simp
  from check_no_stage1_disk [OF h1 h2] h1 show ?thesis
    by simp
qed

section \<open>The password hash\<close>

lemma split_from_Nil_iff:
  "split_from cur t = [] \<longleftrightarrow> cur = [] \<and> (\<forall>c\<in>set t. isspace c)"
  by (induction t arbitrary: cur) auto

lemma split_Nil_iff: "split t = [] \<longleftrightarrow> (\<forall>c\<in>set t. isspace c)"
  by (simp add: split_def split_from_Nil_iff)

lemma startswith_nonempty: "startswith t ''grub.pbkdf2.'' \<Longrightarrow> t \<noteq> []"
  by (auto simp: startswith_def)

lemma encrypt_password_set:
  "truthy (encrypted_password s) \<Longrightarrow> encrypt_password env s = (None, s)"
  by (simp add: encrypt_password_def)

lemma encrypt_password_ok_truthy:
  "encrypt_password env s = (None, s1) \<Longrightarrow> truthy (encrypted_password s1)"
  by (auto simp: encrypt_password_def Let_def execWithCapture_def truthy_def
      dest: startswith_nonempty split: if_splits list.splits)

lemma example_encrypt_password:
  "encrypt_password (example_env 0 example_hash_output True) example_state =
     (None, example_state\<lparr>encrypted_password := Some ''grub.pbkdf2.sha512.10000.AB.CD'',
        trace := [Exec ''/mnt/sysroot'' ''grub2-mkpasswd-pbkdf2'' []
                    (''secret'' @ nl @ ''secret'' @ nl)]\<rparr>)"
  by (simp add: encrypt_password_def Let_def execWithCapture_def emit_def example_state_def
      example_env_def example_out_def example_hash_output_def truthy_def split_def isspace_def
      strip_def startswith_def nl_def)

text \<open>
  C7. If a call of \<open>encrypt_password\<close> returns normally, the state it leaves has a hash,
  and a second call, whatever the hash tool would print then, returns normally and leaves
  that state as it is: the same hash, and no new entry in the trace, so no second run of the
  tool. And whenever \<^verbatim>\<open>encrypted_password\<close> is set, \<open>encrypt_password\<close> changes nothing.
\<close>

theorem encrypt_password_idempotent:
  "(encrypt_password env s = (None, s1) \<longrightarrow> encrypt_password env' s1 = (None, s1))
   \<and> (truthy (encrypted_password s) \<longrightarrow> encrypt_password env' s = (None, s))"
  using encrypt_password_ok_truthy encrypt_password_set by blast

text \<open>
  The witness: the first call runs the tool once and stores the hash; the second call, in an
  environment whose tool prints nothing, leaves the state as it is.
\<close>

theorem encrypt_password_idempotent_witness:
  "encrypt_password (example_env 0 example_hash_output True) example_state =
     (None, example_state\<lparr>encrypted_password := Some ''grub.pbkdf2.sha512.10000.AB.CD'',
        trace := [Exec ''/mnt/sysroot'' ''grub2-mkpasswd-pbkdf2'' []
                    (''secret'' @ nl @ ''secret'' @ nl)]\<rparr>)
   \<and> encrypt_password (example_env 1 [] True)
        (example_state\<lparr>encrypted_password := Some ''grub.pbkdf2.sha512.10000.AB.CD'',
           trace := [Exec ''/mnt/sysroot'' ''grub2-mkpasswd-pbkdf2'' []
                       (''secret'' @ nl @ ''secret'' @ nl)]\<rparr>) =
     (None, example_state\<lparr>encrypted_password := Some ''grub.pbkdf2.sha512.10000.AB.CD'',
        trace := [Exec ''/mnt/sysroot'' ''grub2-mkpasswd-pbkdf2'' []
                    (''secret'' @ nl @ ''secret'' @ nl)]\<rparr>)"
  using example_encrypt_password
    encrypt_password_idempotent [of "example_env 0 example_hash_output True" example_state
      "example_state\<lparr>encrypted_password := Some ''grub.pbkdf2.sha512.10000.AB.CD'',
         trace := [Exec ''/mnt/sysroot'' ''grub2-mkpasswd-pbkdf2'' []
                     (''secret'' @ nl @ ''secret'' @ nl)]\<rparr>"
      "example_env 1 [] True"]
  by blast

text \<open>
  C8. When no hash is stored, a password is set and the output captured from the hash tool
  has no whitespace-delimited token, \<open>encrypt_password\<close> raises \<^verbatim>\<open>IndexError\<close>, not the
  boot loader error of the prefix test; the only change is the run of the tool in the trace,
  and \<^verbatim>\<open>encrypted_password\<close> is as it was.
\<close>

theorem encrypt_password_no_tokens:
  assumes "\<not> truthy (encrypted_password s)"
    and "truthy (password s)"
    and "split (exec_out env (trace s)
           (Exec (sysroot env) ''grub2-mkpasswd-pbkdf2'' []
              (the (password s) @ nl @ the (password s) @ nl))) = []"
  shows "encrypt_password env s =
           (Some IndexError,
            s\<lparr>trace := trace s @ [Exec (sysroot env) ''grub2-mkpasswd-pbkdf2'' []
                                     (the (password s) @ nl @ the (password s) @ nl)]\<rparr>)"
  using assms
  by (simp add: encrypt_password_def Let_def execWithCapture_def emit_def)

theorem encrypt_password_no_tokens_witness:
  "exec_out (example_env 0 [] True) []
     (Exec ''/mnt/sysroot'' ''grub2-mkpasswd-pbkdf2'' [] (''secret'' @ nl @ ''secret'' @ nl)) = []
   \<and> fst (encrypt_password (example_env 0 [] True) example_state) = Some IndexError
   \<and> encrypted_password (snd (encrypt_password (example_env 0 [] True) example_state)) = None"
proof -
  let ?env = "example_env 0 [] True"
  have h1: "\<not> truthy (encrypted_password example_state)"
    by (simp add: example_state_def truthy_def)
  have h2: "truthy (password example_state)"
    by (simp add: example_state_def truthy_def)
  have h3: "split (exec_out ?env (trace example_state)
           (Exec (sysroot ?env) ''grub2-mkpasswd-pbkdf2'' []
              (the (password example_state) @ nl @ the (password example_state) @ nl))) = []"
    by (simp add: example_env_def example_out_def split_def)
  have "encrypted_password example_state = None"
    by (simp add: example_state_def)
  with encrypt_password_no_tokens [OF h1 h2 h3] show ?thesis
    by (simp add: example_env_def example_out_def)
qed

section \<open>Installation on the firmware-table platform\<close>

lemma updateNVRAMBootList_frame:
  "updateNVRAMBootList env s = s\<lparr>trace := trace (updateNVRAMBootList env s)\<rparr>"
  by (simp add: updateNVRAMBootList_def Let_def execWithCapture_def execWithRedirect_def emit_def)

lemma updateNVRAMBootList_fields:
  "install_targets (updateNVRAMBootList env s) = install_targets s"
  "keep_mbr (updateNVRAMBootList env s) = keep_mbr s"
  by (subst updateNVRAMBootList_frame, simp)+

lemma install_loop_trace:
  "\<exists>n\<le>length targets.
     snd (install_loop env args targets s) =
       s\<lparr>trace := trace s @
           map (\<lambda>t. Exec (sysroot env) ''grub2-install'' (target_args (keep_mbr s) args t) [])
             (take n targets)\<rparr>"
proof (induction targets arbitrary: s)
  case Nil
  then show ?case by simp
next
  case (Cons t ts)
  let ?ev = "Exec (sysroot env) ''grub2-install'' (target_args (keep_mbr s) args t) []"
  let ?f = "\<lambda>t. Exec (sysroot env) ''grub2-install'' (target_args (keep_mbr s) args t) []"
  show ?case
  proof (cases "exec_rc env (trace s) ?ev \<noteq> 0")
    case True
    then have "snd (install_loop env args (t # ts) s) =
        s\<lparr>trace := trace s @ map ?f (take 1 (t # ts))\<rparr>"
      by (simp add: execWithRedirect_def emit_def)
    then show ?thesis
      by (intro exI [of _ 1]) simp
  next
    case False
    have km: "keep_mbr (emit ?ev s) = keep_mbr s"
      by (simp add: emit_def)
    from Cons.IH [of "emit ?ev s"] obtain n where n: "n \<le> length ts"
      and eq: "snd (install_loop env args ts (emit ?ev s)) =
        (emit ?ev s)\<lparr>trace := trace (emit ?ev s) @ map ?f (take n ts)\<rparr>"
      unfolding km by blast
    from False have "snd (install_loop env args (t # ts) s) =
         snd (install_loop env args ts (emit ?ev s))"
      by (simp add: execWithRedirect_def)
    also have "\<dots> = s\<lparr>trace := trace s @ map ?f (take (Suc n) (t # ts))\<rparr>"
      unfolding eq by (simp add: emit_def)
    finally show ?thesis
      using n by (intro exI [of _ "Suc n"]) simp
  qed
qed


lemmas example_run =
  example_ipseries_def example_state_def example_env_def example_out_def example_devices
  execWithCapture_def execWithRedirect_def emit_def target_args_def parse_boot_list_def
  reorder_boot_list_def strip_def split_def isspace_def nl_def Let_def

lemma example_updateNVRAMBootList:
  "updateNVRAMBootList (example_env 0 [] True) example_ipseries =
     example_ipseries\<lparr>trace :=
       [Exec ''/'' ''nvram'' [''--print-config=boot-device''] [],
        Exec ''/'' ''ofpathname'' [''/dev/sda1''] [],
        Exec ''/'' ''nvram'' [''--update-config'', ''boot-device=c b''] []]\<rparr>"
  by (simp add: updateNVRAMBootList_def example_run)



lemma example_install_loop:
  "install_loop (example_env 0 [] True) a [(example_prep, example_boot)]
     (example_ipseries\<lparr>trace := tr\<rparr>) =
     (None, example_ipseries\<lparr>trace := tr @
        [Exec ''/mnt/sysroot'' ''grub2-install'' (a @ [''--no-floppy'', ''/dev/sda1'']) []]\<rparr>)"
  by (simp add: example_run)


lemma example_ipseries_fields:
  "keep_boot_order example_ipseries = False"
  "install_targets example_ipseries = [(example_prep, example_boot)]"
  "variant example_ipseries = IPSeries"
  "skip_bootloader example_ipseries = False"
  "update_only example_ipseries = False"
  by (simp_all add: example_ipseries_def example_state_def)

lemma example_GRUB2_install:
  "GRUB2_install (example_env 0 [] True) (Some a)
     (updateNVRAMBootList (example_env 0 [] True) example_ipseries) =
     (None, example_ipseries\<lparr>trace :=
       [Exec ''/'' ''nvram'' [''--print-config=boot-device''] [],
        Exec ''/'' ''ofpathname'' [''/dev/sda1''] [],
        Exec ''/'' ''nvram'' [''--update-config'', ''boot-device=c b''] [],
        Exec ''/mnt/sysroot'' ''grub2-install'' (a @ [''--no-floppy'', ''/dev/sda1'']) []]\<rparr>)"
  unfolding example_updateNVRAMBootList
  by (simp add: GRUB2_install_def example_ipseries_fields example_install_loop
      del: install_loop.simps)

lemma example_IPSeriesGRUB2_install:
  "IPSeriesGRUB2_install (example_env 0 [] True) a example_ipseries =
     (None, example_ipseries\<lparr>trace :=
       [Exec ''/'' ''nvram'' [''--print-config=boot-device''] [],
        Exec ''/'' ''ofpathname'' [''/dev/sda1''] [],
        Exec ''/'' ''nvram'' [''--update-config'', ''boot-device=c b''] [],
        Exec ''/mnt/sysroot'' ''grub2-install'' [''--no-nvram'', ''--no-floppy'', ''/dev/sda1''] []]\<rparr>)"
  by (simp add: IPSeriesGRUB2_install_def example_ipseries_fields example_GRUB2_install)


text \<open>
  C6. On hardware, when the firmware tool prints a boot list and the path tool prints a
  path for the stage1 device (both outputs non-empty), \<open>updateNVRAMBootList\<close> runs the two
  tools and then writes back, with \<^verbatim>\<open>nvram --update-config\<close>, the tokens of the list joined by
  spaces after reordering: the resolved path is first, it does not occur again, and the
  other tokens are those of the list read, in their order. A list \<open>[b, c]\<close> with resolved
  path \<open>c\<close> becomes \<open>[c, b]\<close>.
\<close>

theorem updateNVRAMBootList_reorders:
  assumes "is_hardware env"
    and "exec_out env (trace s) (Exec ''/'' ''nvram'' [''--print-config=boot-device''] []) = buf"
    and "buf \<noteq> []"
    and "exec_out env (trace s @ [Exec ''/'' ''nvram'' [''--print-config=boot-device''] []])
           (Exec ''/'' ''ofpathname'' [path (stage1_device s)] []) = pbuf"
    and "pbuf \<noteq> []"
  shows "updateNVRAMBootList env s =
           s\<lparr>trace := trace s @
              [Exec ''/'' ''nvram'' [''--print-config=boot-device''] [],
               Exec ''/'' ''ofpathname'' [path (stage1_device s)] [],
               Exec ''/'' ''nvram''
                 [''--update-config'',
                  ''boot-device='' @ join '' '' (reorder_boot_list (strip pbuf) (parse_boot_list buf))] []]\<rparr>
         \<and> hd (reorder_boot_list (strip pbuf) (parse_boot_list buf)) = strip pbuf
         \<and> strip pbuf \<notin> set (tl (reorder_boot_list (strip pbuf) (parse_boot_list buf)))
         \<and> filter (\<lambda>x. x \<noteq> strip pbuf) (reorder_boot_list (strip pbuf) (parse_boot_list buf))
             = filter (\<lambda>x. x \<noteq> strip pbuf) (parse_boot_list buf)
         \<and> (\<forall>b c. b \<noteq> c \<longrightarrow> reorder_boot_list c [b, c] = [c, b])"
  using assms
  by (simp add: updateNVRAMBootList_def Let_def execWithCapture_def execWithRedirect_def emit_def
      reorder_boot_list_def)

theorem updateNVRAMBootList_reorders_witness:
  "is_hardware (example_env 0 [] True)
   \<and> parse_boot_list (''b c'' @ nl) = [''b'', ''c'']
   \<and> strip (''c'' @ nl) = ''c''
   \<and> updateNVRAMBootList (example_env 0 [] True) example_ipseries =
     example_ipseries\<lparr>trace :=
       [Exec ''/'' ''nvram'' [''--print-config=boot-device''] [],
        Exec ''/'' ''ofpathname'' [''/dev/sda1''] [],
        Exec ''/'' ''nvram'' [''--update-config'', ''boot-device=c b''] []]\<rparr>"
proof -
  let ?env = "example_env 0 [] True"
  have h1: "is_hardware ?env"
    by (simp add: example_env_def)
  have h2: "exec_out ?env (trace example_ipseries)
      (Exec ''/'' ''nvram'' [''--print-config=boot-device''] []) = ''b c'' @ nl"
    by (simp add: example_env_def example_out_def)
  have h3: "''b c'' @ nl \<noteq> []"
    by simp
  have h4: "exec_out ?env (trace example_ipseries @ [Exec ''/'' ''nvram'' [''--print-config=boot-device''] []])
           (Exec ''/'' ''ofpathname'' [path (stage1_device example_ipseries)] []) = ''c'' @ nl"
    by (simp add: example_env_def example_out_def)
  have h5: "''c'' @ nl \<noteq> []"
    by simp
  have p: "parse_boot_list (''b c'' @ nl) = [''b'', ''c'']"
    by (simp add: parse_boot_list_def strip_def split_def isspace_def nl_def)
  have q: "strip (''c'' @ nl) = ''c''"
    by (simp add: strip_def isspace_def nl_def)
  have f: "trace example_ipseries = []" "path (stage1_device example_ipseries) = ''/dev/sda1''"
    by (simp_all add: example_ipseries_def example_state_def example_devices)
  from updateNVRAMBootList_reorders [OF h1 h2 h3 h4 h5]
  have "updateNVRAMBootList ?env example_ipseries =
     example_ipseries\<lparr>trace :=
       [Exec ''/'' ''nvram'' [''--print-config=boot-device''] [],
        Exec ''/'' ''ofpathname'' [''/dev/sda1''] [],
        Exec ''/'' ''nvram'' [''--update-config'', ''boot-device=c b''] []]\<rparr>"
    unfolding p q f by (simp add: reorder_boot_list_def)
  with h1 p q show ?thesis
    by blast
qed


text \<open>
  C3, as stated, fails. Called with the extra argument \<^verbatim>\<open>--verbose\<close>, the firmware-table
  \<open>install\<close> reconciles the boot order and then runs \<^verbatim>\<open>grub2-install\<close> with
  \<^verbatim>\<open>--no-nvram --no-floppy /dev/sda1\<close>: the caller's argument is not there. The result differs
  from the generic install called with the caller's arguments and the flag, in either order.
\<close>

theorem IPSeriesGRUB2_install_args_counterexample:
  "keep_boot_order example_ipseries = False
   \<and> trace (snd (IPSeriesGRUB2_install (example_env 0 [] True) (Some [''--verbose''])
         example_ipseries)) =
       [Exec ''/'' ''nvram'' [''--print-config=boot-device''] [],
        Exec ''/'' ''ofpathname'' [''/dev/sda1''] [],
        Exec ''/'' ''nvram'' [''--update-config'', ''boot-device=c b''] [],
        Exec ''/mnt/sysroot'' ''grub2-install'' [''--no-nvram'', ''--no-floppy'', ''/dev/sda1''] []]
   \<and> IPSeriesGRUB2_install (example_env 0 [] True) (Some [''--verbose'']) example_ipseries
       \<noteq> GRUB2_install (example_env 0 [] True) (Some [''--verbose'', ''--no-nvram''])
           (updateNVRAMBootList (example_env 0 [] True) example_ipseries)
   \<and> IPSeriesGRUB2_install (example_env 0 [] True) (Some [''--verbose'']) example_ipseries
       \<noteq> GRUB2_install (example_env 0 [] True) (Some [''--no-nvram'', ''--verbose''])
           (updateNVRAMBootList (example_env 0 [] True) example_ipseries)"
proof -
  have neq: "x \<noteq> y" if "trace (snd x) \<noteq> trace (snd y)" for x y :: "error option \<times> grub2"
    using that by auto
  have a: "trace (snd (IPSeriesGRUB2_install (example_env 0 [] True) (Some [''--verbose''])
         example_ipseries)) =
       [Exec ''/'' ''nvram'' [''--print-config=boot-device''] [],
        Exec ''/'' ''ofpathname'' [''/dev/sda1''] [],
        Exec ''/'' ''nvram'' [''--update-config'', ''boot-device=c b''] [],
        Exec ''/mnt/sysroot'' ''grub2-install'' [''--no-nvram'', ''--no-floppy'', ''/dev/sda1''] []]"
    unfolding example_IPSeriesGRUB2_install by simp
  have b: "IPSeriesGRUB2_install (example_env 0 [] True) (Some [''--verbose'']) example_ipseries
       \<noteq> GRUB2_install (example_env 0 [] True) (Some [''--verbose'', ''--no-nvram''])
           (updateNVRAMBootList (example_env 0 [] True) example_ipseries)"
    by (rule neq) (simp add: example_IPSeriesGRUB2_install example_GRUB2_install)
  have c: "IPSeriesGRUB2_install (example_env 0 [] True) (Some [''--verbose'']) example_ipseries
       \<noteq> GRUB2_install (example_env 0 [] True) (Some [''--no-nvram'', ''--verbose''])
           (updateNVRAMBootList (example_env 0 [] True) example_ipseries)"
    by (rule neq) (simp add: example_IPSeriesGRUB2_install example_GRUB2_install)
  from example_ipseries_fields(1) a b c show ?thesis
    by blast
qed

text \<open>
  C3, amended. For every \<^verbatim>\<open>args\<close>, the firmware-table \<open>install\<close> first reconciles the NVRAM
  boot order, unless \<^verbatim>\<open>keep_boot_order\<close> is set, and then is the generic install called with
  the one-element list \<^verbatim>\<open>["--no-nvram"]\<close>. It does not depend on the caller's \<^verbatim>\<open>args\<close>, and
  every run of \<^verbatim>\<open>grub2-install\<close> it makes gets the arguments built from \<^verbatim>\<open>["--no-nvram"]\<close>
  alone, for a leading part of the install targets.
\<close>

theorem IPSeriesGRUB2_install_args:
  "IPSeriesGRUB2_install env args s =
     GRUB2_install env (Some [''--no-nvram''])
       (if keep_boot_order s then s else updateNVRAMBootList env s)
   \<and> IPSeriesGRUB2_install env args s = IPSeriesGRUB2_install env None s
   \<and> (\<exists>n\<le>length (install_targets s).
        trace (snd (IPSeriesGRUB2_install env args s)) =
          trace (if keep_boot_order s then s else updateNVRAMBootList env s) @
          map (\<lambda>t. Exec (sysroot env) ''grub2-install''
                 (target_args (keep_mbr s) [''--no-nvram''] t) [])
            (take n (install_targets s)))"
proof -
  define s1 where "s1 = (if keep_boot_order s then s else updateNVRAMBootList env s)"
  have t: "install_targets s1 = install_targets s" and k: "keep_mbr s1 = keep_mbr s"
    by (simp_all add: s1_def updateNVRAMBootList_fields)
  have run: "IPSeriesGRUB2_install env a s = install_loop env [''--no-nvram''] (install_targets s) s1"
    for a
    by (simp add: IPSeriesGRUB2_install_def GRUB2_install_def Let_def s1_def
        updateNVRAMBootList_fields)
  from install_loop_trace [of "install_targets s" env "[''--no-nvram'']" s1]
  obtain n where n: "n \<le> length (install_targets s)"
    and eq: "snd (install_loop env [''--no-nvram''] (install_targets s) s1) =
       s1\<lparr>trace := trace s1 @
           map (\<lambda>t. Exec (sysroot env) ''grub2-install'' (target_args (keep_mbr s) [''--no-nvram''] t) [])
             (take n (install_targets s))\<rparr>"
    unfolding k by blast
  have c1: "IPSeriesGRUB2_install env args s = GRUB2_install env (Some [''--no-nvram'']) s1"
    by (simp add: IPSeriesGRUB2_install_def Let_def s1_def)
  have c2: "IPSeriesGRUB2_install env args s = IPSeriesGRUB2_install env None s"
    by (simp add: run)
  have c3: "trace (snd (IPSeriesGRUB2_install env args s)) =
          trace s1 @ map (\<lambda>t. Exec (sysroot env) ''grub2-install''
                 (target_args (keep_mbr s) [''--no-nvram''] t) [])
            (take n (install_targets s))"
    unfolding run eq by simp
  from c1 c2 c3 n show ?thesis
    unfolding s1_def by blast
qed


theorem IPSeriesGRUB2_install_args_witness:
  "IPSeriesGRUB2_install (example_env 0 [] True) (Some [''--verbose'']) example_ipseries =
     IPSeriesGRUB2_install (example_env 0 [] True) None example_ipseries
   \<and> IPSeriesGRUB2_install (example_env 0 [] True) (Some [''--verbose'']) example_ipseries =
     GRUB2_install (example_env 0 [] True) (Some [''--no-nvram''])
       (updateNVRAMBootList (example_env 0 [] True) example_ipseries)"
proof -
  note t = IPSeriesGRUB2_install_args [of "example_env 0 [] True" "Some [''--verbose'']"
      example_ipseries]
  have a: "IPSeriesGRUB2_install (example_env 0 [] True) (Some [''--verbose'']) example_ipseries =
     IPSeriesGRUB2_install (example_env 0 [] True) None example_ipseries"
    by (rule t [THEN conjunct2, THEN conjunct1])
  have b: "IPSeriesGRUB2_install (example_env 0 [] True) (Some [''--verbose'']) example_ipseries =
     GRUB2_install (example_env 0 [] True) (Some [''--no-nvram''])
       (updateNVRAMBootList (example_env 0 [] True) example_ipseries)"
    using t [THEN conjunct1] by (simp only: example_ipseries_fields(1) if_False)
  from a b show ?thesis by (rule conjI)
qed

section \<open>The device map\<close>

lemma collect_devices_emit: "collect_devices (emit e s) = collect_devices s"
  by (simp add: collect_devices_def emit_def Let_def)

lemma write_map_lines_trace:
  "\<exists>evs. snd (write_map_lines p ds s) = s\<lparr>trace := trace s @ evs\<rparr>
         \<and> (\<forall>a b. Rename a b \<notin> set evs)"
proof (induction ds arbitrary: s)
  case Nil
  have "snd (write_map_lines p [] s) = s\<lparr>trace := trace s @ []\<rparr>" by simp
  then show ?case by (intro exI [of _ "[]"]) simp
next
  case (Cons d ds)
  show ?case
  proof (cases "grub_device_name s d")
    case (Inl e)
    then have "snd (write_map_lines p (d # ds) s) = s\<lparr>trace := trace s @ []\<rparr>" by simp
    then show ?thesis by (intro exI [of _ "[]"]) simp
  next
    case (Inr n)
    let ?ev = "WriteText p (n @ ''      '' @ path d @ nl)"
    from Cons.IH [of "emit ?ev s"] obtain evs where
      eq: "snd (write_map_lines p ds (emit ?ev s)) = (emit ?ev s)\<lparr>trace := trace (emit ?ev s) @ evs\<rparr>"
      and nr: "\<forall>a b. Rename a b \<notin> set evs"
      by blast
    from Inr have "snd (write_map_lines p (d # ds) s) = snd (write_map_lines p ds (emit ?ev s))"
      by (simp add: write_text_def)
    also have "\<dots> = s\<lparr>trace := trace s @ (?ev # evs)\<rparr>"
      unfolding eq by (simp add: emit_def)
    finally show ?thesis
      using nr by (intro exI [of _ "?ev # evs"]) simp
  qed
qed

lemma write_device_map_unfold:
  "write_device_map env s =
     (if filter is_disk (collect_devices s) = []
      then (None, s\<lparr>disks_list := collect_devices s, trace := trace s @ map_renames env s\<rparr>)
      else if open_fails env (trace s @ map_renames env s)
                (normpath env (sysroot env @ device_map_file s))
      then (Some OSError,
            s\<lparr>disks_list := collect_devices s, trace := trace s @ map_renames env s\<rparr>)
      else write_map_lines (normpath env (sysroot env @ device_map_file s))
             (filter is_disk (collect_devices s))
             (s\<lparr>disks_list := collect_devices s,
                trace := trace s @ map_renames env s @
                  [Open (normpath env (sysroot env @ device_map_file s)) ''w'',
                   WriteText (normpath env (sysroot env @ device_map_file s))
                     (''# this device map was generated by anaconda'' @ nl)]\<rparr>))"
proof -
  define mp where "mp = normpath env (sysroot env @ device_map_file s)"
  define s1 where "s1 = (if readable env (trace s) mp then emit (Rename mp (mp @ ''.anacbak'')) s else s)"
  define s2 where "s2 = s\<lparr>disks_list := collect_devices s, trace := trace s @ map_renames env s\<rparr>"
  have c: "collect_devices s1 = collect_devices s"
    by (simp add: s1_def collect_devices_emit)
  have e: "s1\<lparr>disks_list := collect_devices s1\<rparr> = s2"
    unfolding c by (simp add: s1_def s2_def map_renames_def mp_def emit_def Let_def)
  have d: "disks_list s2 = collect_devices s" and t: "trace s2 = trace s @ map_renames env s"
    by (simp_all add: s2_def)
  have "write_device_map env s =
      (if length (filter is_disk (disks_list s2)) = 0 then (None, s2)
       else case open_file env mp ''w'' s2 of
              (Some e, s3) \<Rightarrow> (Some e, s3)
            | (None, s3) \<Rightarrow>
                write_map_lines mp (filter is_disk (disks_list s2))
                  (write_text mp (''# this device map was generated by anaconda'' @ nl) s3))"
    unfolding write_device_map_def Let_def mp_def [symmetric] s1_def [symmetric] e ..
  also have "\<dots> =
      (if filter is_disk (collect_devices s) = [] then (None, s2)
       else if open_fails env (trace s @ map_renames env s) mp then (Some OSError, s2)
       else write_map_lines mp (filter is_disk (collect_devices s))
              (s2\<lparr>trace := trace s2 @ [Open mp ''w'',
                 WriteText mp (''# this device map was generated by anaconda'' @ nl)]\<rparr>))"
    unfolding d by (simp add: open_file_def write_text_def emit_def t)
  finally show ?thesis
    unfolding mp_def by (simp add: s2_def)
qed

lemma write_device_map_trace:
  "\<exists>evs. trace (snd (write_device_map env s)) = trace s @ map_renames env s @ evs
         \<and> (\<forall>a b. Rename a b \<notin> set evs)"
proof -
  let ?mp = "normpath env (sysroot env @ device_map_file s)"
  let ?new = "[Open ?mp ''w'', WriteText ?mp (''# this device map was generated by anaconda'' @ nl)]"
  let ?s3 = "s\<lparr>disks_list := collect_devices s, trace := trace s @ map_renames env s @ ?new\<rparr>"
  from write_map_lines_trace [of ?mp "filter is_disk (collect_devices s)" ?s3]
  obtain evs where eq: "snd (write_map_lines ?mp (filter is_disk (collect_devices s)) ?s3) =
        ?s3\<lparr>trace := trace ?s3 @ evs\<rparr>" and nr: "\<forall>a b. Rename a b \<notin> set evs"
    by blast
  have "trace (snd (write_device_map env s)) = trace s @ map_renames env s @ [] \<or>
        trace (snd (write_device_map env s)) = trace s @ map_renames env s @ (?new @ evs)"
    unfolding write_device_map_unfold using eq by simp
  moreover have "\<forall>a b. Rename a b \<notin> set (?new @ evs)"
    using nr by simp
  ultimately show ?thesis
    by (metis empty_iff list.set(1))
qed


lemma example_no_disks_collect:
  "collect_devices example_no_disks = [example_prep]"
  "filter is_disk (collect_devices example_no_disks) = []"
  by (simp_all add: collect_devices_def example_no_disks_def example_state_def example_devices)

lemma example_no_disks_renames:
  "map_renames (example_env rc out True) example_no_disks =
     [Rename ''/mnt/sysroot/boot/grub2/device.map'' ''/mnt/sysroot/boot/grub2/device.map.anacbak'']"
  by (simp add: map_renames_def example_env_def example_no_disks_def example_state_def)

text \<open>
  C2, as stated, fails. With an empty disk list, the partition \<^verbatim>\<open>sda1\<close> as stage1 device and
  a stage2 device without disks, the collected disk-only list is empty; the map file is
  readable. \<open>write_device_map\<close> returns normally, having renamed the map file to the backup
  name and written no new one.
\<close>

theorem write_device_map_empty_counterexample:
  "filter is_disk (collect_devices example_no_disks) = []
   \<and> readable (example_env 0 [] True) (trace example_no_disks)
        ''/mnt/sysroot/boot/grub2/device.map''
   \<and> fst (write_device_map (example_env 0 [] True) example_no_disks) = None
   \<and> trace (snd (write_device_map (example_env 0 [] True) example_no_disks)) =
       trace example_no_disks @
       [Rename ''/mnt/sysroot/boot/grub2/device.map''
          ''/mnt/sysroot/boot/grub2/device.map.anacbak'']"
  by (simp add: write_device_map_unfold example_no_disks_collect(2) example_no_disks_renames)
     (simp add: example_env_def)

text \<open>
  C2, amended. When the collected, deduplicated, disk-only device list is empty,
  \<open>write_device_map\<close> opens and writes no file; its only effect on the file system is the
  rename of the map file to the backup name, made exactly when the map file is readable. In
  every invocation that rename is made first when the map file is readable, whether or not a
  map file is written afterwards, and no other rename follows.
\<close>

theorem write_device_map_empty:
  "(filter is_disk (collect_devices s) = [] \<longrightarrow>
      write_device_map env s =
        (None, s\<lparr>disks_list := collect_devices s, trace := trace s @ map_renames env s\<rparr>))
   \<and> (\<exists>evs. trace (snd (write_device_map env s)) = trace s @ map_renames env s @ evs
          \<and> (\<forall>a b. Rename a b \<notin> set evs))"
  using write_device_map_trace [of env s] by (simp add: write_device_map_unfold)

theorem write_device_map_empty_witness:
  "filter is_disk (collect_devices example_no_disks) = []
   \<and> write_device_map (example_env 0 [] False) example_no_disks =
       (None, example_no_disks\<lparr>disks_list := [example_prep], trace := trace example_no_disks\<rparr>)"
proof -
  have h: "filter is_disk (collect_devices example_no_disks) = []"
    by (rule example_no_disks_collect)
  have r: "map_renames (example_env 0 [] False) example_no_disks = []"
    by (simp add: map_renames_def example_env_def)
  from write_device_map_empty [of example_no_disks "example_env 0 [] False", THEN conjunct1, THEN mp, OF h]
  have "write_device_map (example_env 0 [] False) example_no_disks =
       (None, example_no_disks\<lparr>disks_list := [example_prep], trace := trace example_no_disks\<rparr>)"
    unfolding r example_no_disks_collect by simp
  with h show ?thesis by (rule conjI)
qed

section \<open>Writing the configuration\<close>

lemma join_mem: "x \<in> set xs \<Longrightarrow> \<exists>u v. join sep xs = u @ x @ v"
proof (induction sep xs rule: join.induct)
  case (1 sep)
  then show ?case by simp
next
  case (2 sep y)
  then have "join sep [y] = [] @ x @ []" by simp
  then show ?case by blast
next
  case (3 sep y z zs)
  show ?case
  proof (cases "x = y")
    case True
    then have "join sep (y # z # zs) = [] @ x @ (sep @ join sep (z # zs))" by simp
    then show ?thesis by blast
  next
    case False
    with 3 obtain u v where "join sep (z # zs) = u @ x @ v" by auto
    then have "join sep (y # z # zs) = (y @ sep @ u) @ x @ v" by simp
    then show ?thesis by blast
  qed
qed

lemma cmdline_line_mem:
  assumes "x \<in> set args"
  shows "\<exists>u v. cmdline_line args = u @ x @ v"
proof -
  from join_mem [OF assms, of "'' ''"] obtain u v where "join '' '' args = u @ x @ v" by blast
  then have "cmdline_line args = (''GRUB_CMDLINE_LINUX='' @ dq @ u) @ x @ (v @ dq @ nl)"
    by (simp add: cmdline_line_def args_str_def)
  then show ?thesis by blast
qed

lemma fold_write_text:
  "fold (write_text f) ls s = s\<lparr>trace := trace s @ map (WriteText f) ls\<rparr>"
  by (induction ls arbitrary: s) (simp_all add: write_text_def emit_def)

lemma defaults_lines_trace [simp]: "defaults_lines (s\<lparr>trace := t\<rparr>) = defaults_lines s"
  by (simp add: defaults_lines_def)

lemma cmdline_in_defaults_lines: "cmdline_line (boot_args s) \<in> set (defaults_lines s)"
  by (simp add: defaults_lines_def)

lemma GRUB2_write_defaults_ok:
  assumes "\<not> open_fails env (trace s) (sysroot env @ defaults_file)"
  shows "\<exists>evs u. GRUB2_write_defaults env s =
            (None, s\<lparr>use_bls := u,
                     trace := trace s @ Open (sysroot env @ defaults_file) ''w+''
                       # map (WriteText (sysroot env @ defaults_file)) (defaults_lines s) @ evs\<rparr>)"
proof -
  let ?f = "sysroot env @ defaults_file"
  let ?t2 = "trace s @ Open ?f ''w+'' # map (WriteText ?f) (defaults_lines s)"
  let ?s2 = "s\<lparr>trace := ?t2\<rparr>"
  have s2: "fold (write_text ?f) (defaults_lines (emit (Open ?f ''w+'') s)) (emit (Open ?f ''w+'') s) = ?s2"
    by (simp add: fold_write_text emit_def)
  have eq: "GRUB2_write_defaults env s =
     (let s3 = (if use_bls ?s2 \<and> path_exists env (trace ?s2) (sysroot env @ ''/usr/sbin/new-kernel-pkg'')
                    then ?s2\<lparr>use_bls := False\<rparr> else ?s2);
          s4 = (if use_bls s3 then write_text ?f (''GRUB_ENABLE_BLSCFG=true'' @ nl) s3 else s3)
      in (None, s4))"
    using assms unfolding GRUB2_write_defaults_def Let_def open_file_def
    by (simp only: if_False prod.case option.case s2)
  consider (a) "\<not> use_bls s" | (b) "use_bls s" "path_exists env ?t2 (sysroot env @ ''/usr/sbin/new-kernel-pkg'')"
    | (c) "use_bls s" "\<not> path_exists env ?t2 (sysroot env @ ''/usr/sbin/new-kernel-pkg'')"
    by blast
  then show ?thesis
  proof cases
    case a
    then have "GRUB2_write_defaults env s = (None, s\<lparr>use_bls := False, trace := ?t2 @ []\<rparr>)"
      unfolding eq by (simp add: Let_def)
    then show ?thesis by (metis append_Cons append_assoc)
  next
    case b
    then have "GRUB2_write_defaults env s = (None, s\<lparr>use_bls := False, trace := ?t2 @ []\<rparr>)"
      unfolding eq by (simp add: Let_def)
    then show ?thesis by (metis append_Cons append_assoc)
  next
    case c
    then have "GRUB2_write_defaults env s = (None, s\<lparr>use_bls := True,
        trace := ?t2 @ [WriteText ?f (''GRUB_ENABLE_BLSCFG=true'' @ nl)]\<rparr>)"
      unfolding eq by (simp add: Let_def write_text_def emit_def)
    then show ?thesis by (metis append_Cons append_assoc)
  qed
qed


lemma encrypt_password_trace:
  "\<exists>evs. trace (snd (encrypt_password env s)) = trace s @ evs"
proof -
  let ?ev = "Exec (sysroot env) ''grub2-mkpasswd-pbkdf2'' [] (the (password s) @ nl @ the (password s) @ nl)"
  have "trace (snd (encrypt_password env s)) = trace s @ []
        \<or> trace (snd (encrypt_password env s)) = trace s @ [?ev]"
    by (simp add: encrypt_password_def Let_def execWithCapture_def emit_def split: list.splits)
  then show ?thesis by blast
qed

lemma write_password_config_trace:
  "\<exists>evs. trace (snd (write_password_config env s)) = trace s @ evs"
proof -
  let ?f = "sysroot env @ config_dir s @ ''/'' @ passwd_file"
  let ?s1 = "emit (OpenWithPerm ?f ''w'' 448) s"
  from encrypt_password_trace [of env ?s1] obtain evs where
    e: "trace (snd (encrypt_password env ?s1)) = trace s @ OpenWithPerm ?f ''w'' 448 # evs"
    by (auto simp: emit_def)
  obtain r s2 where r: "encrypt_password env ?s1 = (r, s2)"
    by (cases "encrypt_password env ?s1")
  with e have t2: "trace s2 = trace s @ OpenWithPerm ?f ''w'' 448 # evs"
    by simp
  have "trace (snd (write_password_config env s)) = trace s @ []
        \<or> trace (snd (write_password_config env s)) = trace s @ OpenWithPerm ?f ''w'' 448 # evs
        \<or> trace (snd (write_password_config env s)) = trace s @ OpenWithPerm ?f ''w'' 448 # evs
             @ [WriteText ?f ((''GRUB2_PASSWORD='' @ the (encrypted_password s2)) @ nl)]"
    using r [unfolded emit_def, simplified]
    by (cases r) (simp_all add: write_password_config_def Let_def open_with_perm_def t2
        write_text_def emit_def)
  then show ?thesis by (metis append_Cons append_assoc)
qed

lemma finish_config_trace:
  "\<exists>evs. trace (snd (finish_config env s)) = trace s @ evs"
proof -
  define s1 where "s1 = (case default_image s of
                  None \<Rightarrow> s
                | Some d \<Rightarrow>
                    let default_index = (case index_of (images s) d of None \<Rightarrow> 0 | Some i \<Rightarrow> i)
                    in snd (execInSysroot env ''grub2-set-default'' [show_nat default_index] s))"
  define s2 where "s2 = (if menu_auto_hide s1
                then snd (execInSysroot env ''grub2-editenv''
                            [''-'', ''set'', ''menu_auto_hide=1'', ''boot_success=1''] s1)
                else s1)"
  have 1: "\<exists>evs. trace s1 = trace s @ evs"
    by (cases "default_image s")
       (simp_all add: s1_def Let_def execInSysroot_def execWithRedirect_def emit_def)
  have 2: "\<exists>evs. trace s2 = trace s1 @ evs"
    by (simp add: s2_def execInSysroot_def execWithRedirect_def emit_def)
  have "finish_config env s =
      (let (rc, s3) = execInSysroot env ''grub2-mkconfig'' [''-o'', config_file s2] s2
       in if rc \<noteq> 0
         then (Some (BootLoaderError ''failed to write boot loader configuration''), s3)
         else (None, s3))"
    by (simp add: finish_config_def s1_def s2_def Let_def)
  then have 3: "\<exists>evs. trace (snd (finish_config env s)) = trace s2 @ evs"
    by (simp add: execInSysroot_def execWithRedirect_def emit_def)
  from 1 2 3 show ?thesis by (metis append_assoc)
qed


lemma GRUB2_write_defaults_cmdline:
  assumes "\<not> open_fails env (trace s) (sysroot env @ defaults_file)"
  shows "fst (GRUB2_write_defaults env s) = None
         \<and> WriteText (sysroot env @ defaults_file) (cmdline_line (boot_args s))
             \<in> set (trace (snd (GRUB2_write_defaults env s)))"
proof -
  from GRUB2_write_defaults_ok [OF assms] obtain evs u where
    "GRUB2_write_defaults env s =
            (None, s\<lparr>use_bls := u,
                     trace := trace s @ Open (sysroot env @ defaults_file) ''w+''
                       # map (WriteText (sysroot env @ defaults_file)) (defaults_lines s) @ evs\<rparr>)"
    by blast
  then show ?thesis
    using cmdline_in_defaults_lines [of s] by simp
qed

lemma IPSeriesGRUB2_write_defaults_trace:
  "\<exists>evs. trace (snd (IPSeriesGRUB2_write_defaults env s)) =
           trace (snd (GRUB2_write_defaults env s)) @ evs"
proof -
  obtain r s1 where g: "GRUB2_write_defaults env s = (r, s1)"
    by (cases "GRUB2_write_defaults env s")
  let ?f = "sysroot env @ defaults_file"
  have "trace (snd (IPSeriesGRUB2_write_defaults env s)) = trace s1 @ []
      \<or> trace (snd (IPSeriesGRUB2_write_defaults env s)) = trace s1 @
           [Open ?f ''a+'',
            WriteText ?f (''GRUB_TERMINFO='' @ dq @ ''terminfo -g 80x24 console'' @ dq @ nl),
            WriteText ?f (''GRUB_DISABLE_OS_PROBER=true'' @ nl)]"
    by (cases r) (simp_all add: IPSeriesGRUB2_write_defaults_def g open_file_def Let_def
        write_text_def emit_def)
  then show ?thesis
    unfolding g by auto
qed

lemma write_defaults_cmdline:
  assumes "\<not> open_fails env (trace s) (sysroot env @ defaults_file)"
  shows "WriteText (sysroot env @ defaults_file) (cmdline_line (boot_args s))
             \<in> set (trace (snd (write_defaults env s)))"
proof (cases "variant s")
  case Generic
  then show ?thesis
    using GRUB2_write_defaults_cmdline [OF assms] by (simp add: write_defaults_def)
next
  case IPSeries
  from IPSeriesGRUB2_write_defaults_trace [of env s] obtain evs where
    "trace (snd (IPSeriesGRUB2_write_defaults env s)) =
       trace (snd (GRUB2_write_defaults env s)) @ evs"
    by blast
  with IPSeries show ?thesis
    using GRUB2_write_defaults_cmdline [OF assms] by (simp add: write_defaults_def)
qed

lemma write_config_trace:
  "\<exists>evs. trace (snd (write_config env s)) =
           trace (snd (write_defaults env (prepare_boot_args s))) @ evs"
proof -
  obtain r s1 where d: "write_defaults env (prepare_boot_args s) = (r, s1)"
    by (cases "write_defaults env (prepare_boot_args s)")
  obtain r2 s2 where p: "write_password_config env s1 = (r2, s2)"
    by (cases "write_password_config env s1")
  from write_password_config_trace [of env s1] p obtain evs where
    e2: "trace s2 = trace s1 @ evs" by auto
  from finish_config_trace [of env s2] obtain evs' where
    e3: "trace (snd (finish_config env s2)) = trace s2 @ evs'" by blast
  have "trace (snd (write_config env s)) = trace s1 @ []
      \<or> trace (snd (write_config env s)) = trace s1 @ evs
      \<or> trace (snd (write_config env s)) = trace s1 @ (evs @ evs')"
    by (cases r; cases r2) (simp_all add: write_config_def d p e2 e3)
  then show ?thesis
    unfolding d by auto
qed

lemma prepare_boot_args_trace: "trace (prepare_boot_args s) = trace s"
  by (simp add: prepare_boot_args_def write_config_console_def Let_def)

lemma write_config_console_password:
  "password (write_config_console s) = password s"
  "encrypted_password (write_config_console s) = encrypted_password s"
  by (simp_all add: write_config_console_def Let_def)

lemma args_add_mem: "a \<in> set (args_add a xs)"
  by (simp add: args_add_def)

text \<open>
  C10. When a password is configured (\<^verbatim>\<open>password\<close> or \<^verbatim>\<open>encrypted_password\<close> is
  truthy), the boot arguments with which \<open>write_config\<close> calls \<open>write_defaults\<close> contain
  \<^verbatim>\<open>rd.shell=0\<close>, the text of the \<^verbatim>\<open>GRUB_CMDLINE_LINUX\<close> line for them contains the token,
  and, if the defaults file can be opened, that line is written to it. With no password
  configured the step adds nothing: the boot arguments are those left by
  \<open>write_config_console\<close>.
\<close>

theorem write_config_rd_shell:
  "(truthy (password s) \<or> truthy (encrypted_password s) \<longrightarrow>
      ''rd.shell=0'' \<in> set (boot_args (prepare_boot_args s))
      \<and> (\<exists>u v. cmdline_line (boot_args (prepare_boot_args s)) = u @ ''rd.shell=0'' @ v)
      \<and> (\<not> open_fails env (trace s) (sysroot env @ defaults_file) \<longrightarrow>
           WriteText (sysroot env @ defaults_file) (cmdline_line (boot_args (prepare_boot_args s)))
             \<in> set (trace (snd (write_config env s)))))
   \<and> (\<not> truthy (password s) \<and> \<not> truthy (encrypted_password s) \<longrightarrow>
        prepare_boot_args s = write_config_console s)"
proof -
  have mem: "''rd.shell=0'' \<in> set (boot_args (prepare_boot_args s))"
    if "truthy (password s) \<or> truthy (encrypted_password s)"
    using that by (auto simp: prepare_boot_args_def Let_def write_config_console_password args_add_mem)
  have written: "WriteText (sysroot env @ defaults_file) (cmdline_line (boot_args (prepare_boot_args s)))
             \<in> set (trace (snd (write_config env s)))"
    if "\<not> open_fails env (trace s) (sysroot env @ defaults_file)"
  proof -
    from that have "\<not> open_fails env (trace (prepare_boot_args s)) (sysroot env @ defaults_file)"
      by (simp add: prepare_boot_args_trace)
    from write_defaults_cmdline [OF this] write_config_trace [of env s]
    show ?thesis by auto
  qed
  have none: "prepare_boot_args s = write_config_console s"
    if "\<not> truthy (password s) \<and> \<not> truthy (encrypted_password s)"
    using that by (simp add: prepare_boot_args_def Let_def write_config_console_password)
  from mem written none cmdline_line_mem show ?thesis
    by blast
qed


theorem write_config_rd_shell_witness:
  "truthy (password example_state)
   \<and> boot_args (prepare_boot_args example_state) = [''ro'', ''rd.shell=0'']
   \<and> WriteText ''/mnt/sysroot/etc/default/grub''
         (''GRUB_CMDLINE_LINUX='' @ dq @ ''ro rd.shell=0'' @ dq @ nl)
       \<in> set (trace (snd (write_config (example_env 0 example_hash_output True) example_state)))
   \<and> boot_args (prepare_boot_args (example_state\<lparr>password := None\<rparr>)) = [''ro'']"
proof -
  let ?env = "example_env 0 example_hash_output True"
  have h: "truthy (password example_state)"
    by (simp add: example_state_def truthy_def)
  have o: "\<not> open_fails ?env (trace example_state) (sysroot ?env @ defaults_file)"
    by (simp add: example_env_def)
  have b: "boot_args (prepare_boot_args example_state) = [''ro'', ''rd.shell=0'']"
    by (simp add: prepare_boot_args_def write_config_console_def example_state_def truthy_def
        args_add_def)
  have c: "cmdline_line [''ro'', ''rd.shell=0''] =
      ''GRUB_CMDLINE_LINUX='' @ dq @ ''ro rd.shell=0'' @ dq @ nl"
    by (simp add: cmdline_line_def args_str_def)
  have f: "sysroot ?env @ defaults_file = ''/mnt/sysroot/etc/default/grub''"
    by (simp add: example_env_def defaults_file_def)
  have n: "\<not> truthy (password (example_state\<lparr>password := None\<rparr>))
      \<and> \<not> truthy (encrypted_password (example_state\<lparr>password := None\<rparr>))"
    by (simp add: example_state_def truthy_def)
  note t = write_config_rd_shell [of example_state ?env]
  from t h o have "WriteText (sysroot ?env @ defaults_file)
      (cmdline_line (boot_args (prepare_boot_args example_state)))
       \<in> set (trace (snd (write_config ?env example_state)))"
    by blast
  then have w: "WriteText ''/mnt/sysroot/etc/default/grub''
         (''GRUB_CMDLINE_LINUX='' @ dq @ ''ro rd.shell=0'' @ dq @ nl)
       \<in> set (trace (snd (write_config ?env example_state)))"
    unfolding b c f .
  from write_config_rd_shell [of "example_state\<lparr>password := None\<rparr>" ?env] n
  have "prepare_boot_args (example_state\<lparr>password := None\<rparr>) =
      write_config_console (example_state\<lparr>password := None\<rparr>)"
    by blast
  then have e: "boot_args (prepare_boot_args (example_state\<lparr>password := None\<rparr>)) = [''ro'']"
    by (simp add: write_config_console_def example_state_def truthy_def)
  from h b w e show ?thesis by blast
qed

section \<open>The write sequence\<close>

text \<open>
  C1, as stated, fails. In the example environment in which every process exits with code 1,
  the device map is written and the install step raises the install error; config writing is
  attempted and \<^verbatim>\<open>grub2-mkconfig\<close> fails too. \<open>write\<close> raises the error of config writing,
  not the install error, and the run of \<^verbatim>\<open>grub2-mkconfig\<close> is the last effect: no sync
  follows it.
\<close>

theorem write_install_fails_counterexample:
  "\<not> skip_bootloader example_state \<and> \<not> update_only example_state
   \<and> fst (write_device_map (example_env 1 example_hash_output True) example_state) = None
   \<and> fst (install (example_env 1 example_hash_output True) None
        (os_sync (format_sync (example_env 1 example_hash_output True)
           (snd (write_device_map (example_env 1 example_hash_output True) example_state))))) =
      Some (BootLoaderError ''boot loader install failed'')
   \<and> fst (write (example_env 1 example_hash_output True) example_state) =
      Some (BootLoaderError ''failed to write boot loader configuration'')
   \<and> last (trace (snd (write (example_env 1 example_hash_output True) example_state))) =
       Exec ''/mnt/sysroot'' ''grub2-mkconfig'' [''-o'', ''/boot/grub2/grub.cfg''] []"
  by code_simp

text \<open>
  C1, amended. For every state with the skip flag and the update-only flag unset, if the
  device map step returns normally and the install step raises an error, config writing is
  run on the state the install step left. If config writing returns normally, \<^verbatim>\<open>os.sync\<close>
  and the sync of the stage2 format follow and \<open>write\<close> raises the install error. If config
  writing raises, \<open>write\<close> raises that error instead and stops there, without the final
  sync.
\<close>

theorem write_install_fails:
  assumes "\<not> skip_bootloader s" and "\<not> update_only s"
    and "write_device_map env s = (None, s1)"
    and "install env None (os_sync (format_sync env s1)) = (Some e, s2)"
  shows "write env s =
           (case write_config env s2 of
              (None, s3) \<Rightarrow> (Some e, format_sync env (os_sync s3))
            | (Some e', s3) \<Rightarrow> (Some e', s3))"
  using assms
  by (simp add: write_def write_try_def write_finally_def split: prod.splits option.splits)

theorem write_install_fails_witness:
  "\<not> skip_bootloader example_state \<and> \<not> update_only example_state
   \<and> fst (write_device_map example_env_install_fails example_state) = None
   \<and> fst (install example_env_install_fails None
        (os_sync (format_sync example_env_install_fails
           (snd (write_device_map example_env_install_fails example_state))))) =
      Some (BootLoaderError ''boot loader install failed'')
   \<and> fst (write example_env_install_fails example_state) =
      Some (BootLoaderError ''boot loader install failed'')
   \<and> last (trace (snd (write example_env_install_fails example_state))) =
       FormatSync ''/mnt/sysimage''"
proof -
  let ?env = "example_env_install_fails"
  let ?s1 = "snd (write_device_map ?env example_state)"
  let ?s2 = "snd (install ?env None (os_sync (format_sync ?env ?s1)))"
  let ?e = "BootLoaderError ''boot loader install failed''"
  have h1: "\<not> skip_bootloader example_state" and h2: "\<not> update_only example_state"
    by (simp_all add: example_state_def)
  have m: "fst (write_device_map ?env example_state) = None"
    by code_simp
  have i: "fst (install ?env None (os_sync (format_sync ?env ?s1))) = Some ?e"
    by code_simp
  have c: "fst (write_config ?env ?s2) = None"
    by code_simp
  have r: "target_physical_root ?env = ''/mnt/sysimage''"
    by (simp add: example_env_install_fails_def example_env_def)
  have h3: "write_device_map ?env example_state = (None, ?s1)"
    using m by (metis prod.collapse)
  have h4: "install ?env None (os_sync (format_sync ?env ?s1)) = (Some ?e, ?s2)"
    using i by (metis prod.collapse)
  from c obtain s3 where wc: "write_config ?env ?s2 = (None, s3)"
    by (cases "write_config ?env ?s2") auto
  from write_install_fails [OF h1 h2 h3 h4]
  have "write ?env example_state = (Some ?e, format_sync ?env (os_sync s3))"
    unfolding wc by simp
  then have "fst (write ?env example_state) = Some ?e"
    and "last (trace (snd (write ?env example_state))) = FormatSync ''/mnt/sysimage''"
    by (simp_all add: format_sync_def emit_def r)
  with h1 h2 m i show ?thesis by blast
qed

end
